theory Spec2Isabelle
  imports Complex_Main
begin

section \<open>Python values and exceptions\<close>

text \<open>
  The two routers exchange parsed JSON with their libraries. A parsed JSON document is a
  Python value built from \<open>None\<close>, booleans, numbers, strings, lists and dicts; a dict
  is kept as an association list that is read through \<open>map_of\<close>. Python floats are
  idealised as real numbers throughout: no rounding, no NaN and no infinities.
\<close>

datatype json =
    JNull
  | JBool bool
  | JInt int
  | JFloat real
  | JStr string
  | JList "json list"
  | JDict "(string \<times> json) list"

text \<open>
  Every \<open>raise\<close> of the source is a value of \<open>exn\<close>. \<open>HTTPException\<close> carries the status
  code and the detail. \<open>LibraryError\<close> stands for whatever a library call raises
  (\<open>joblib.load\<close>, \<open>model.predict\<close>, the directions client); all of these are
  subclasses of Python's \<open>Exception\<close>, and so is \<open>HTTPException\<close>.
\<close>

datatype exn =
    HTTPException nat string
  | NameError string
  | KeyError json
  | IndexError
  | TypeError
  | AttributeError
  | ValueError
  | ValidationError
  | LibraryError string

definition bind_exn :: "exn + 'a \<Rightarrow> ('a \<Rightarrow> exn + 'b) \<Rightarrow> exn + 'b" where
  "bind_exn m f = (case m of Inl e \<Rightarrow> Inl e | Inr x \<Rightarrow> f x)"

section \<open>backend/routers/predictions.py\<close>

subsection \<open>Request and response classes\<close>

record TripFeatures =
  pickup_longitude :: real
  pickup_latitude :: real
  dropoff_longitude :: real
  dropoff_latitude :: real
  passenger_count :: int
  pickup_datetime :: string
  vendor_id :: int
  store_and_fwd_flag :: string

record TripPrediction =
  trip_duration_seconds :: real
  trip_duration_minutes :: real
  confidence :: real

text \<open>
  The pattern \<open>^[YN]$\<close> of \<open>store_and_fwd_flag\<close>, as Python's \<open>re.match\<close> reads it:
  \<open>$\<close> also matches just before one final newline.
\<close>

definition flag_regex :: "string \<Rightarrow> bool" where
  "flag_regex s =
     (s = ''Y'' \<or> s = ''N'' \<or> s = [CHR ''Y'', CHR 0x0A] \<or> s = [CHR ''N'', CHR 0x0A])"

text \<open>
  The constraints that the class \<open>TripFeatures\<close> declares on its fields. The framework
  checks them before it calls the handler; the four coordinates are declared as plain
  \<open>float\<close> fields.
\<close>

definition TripFeatures_validate :: "TripFeatures \<Rightarrow> exn + TripFeatures" where
  "TripFeatures_validate trip =
     (if 1 \<le> passenger_count trip \<and> passenger_count trip \<le> 8
         \<and> 1 \<le> vendor_id trip \<and> vendor_id trip \<le> 2
         \<and> flag_regex (store_and_fwd_flag trip)
      then Inr trip else Inl ValidationError)"

subsection \<open>The model handle\<close>

text \<open>
  A feature dict has string keys and integer or float values. The loaded artifact is
  opaque: all the handler uses is \<open>model.predict(X)[0]\<close>, which returns seconds or raises.
\<close>

datatype pyval = PInt int | PFloat real

type_synonym features = "(string \<times> pyval) list"

type_synonym model = "features \<Rightarrow> exn + real"

text \<open>
  The module-level global \<open>_model\<close> is the field \<open>model_global\<close> of the process state.
  The field \<open>loads\<close> is an instrument: it counts the calls of \<open>joblib.load\<close> so far. What
  the \<open>n\<close>-th call of \<open>joblib.load\<close> finds on disk is the parameter \<open>joblib_load n\<close>.
\<close>

record process =
  model_global :: "model option"
  loads :: nat

definition initial_process :: process where
  "initial_process = \<lparr>model_global = None, loads = 0\<rparr>"

definition load_model :: "(nat \<Rightarrow> exn + model) \<Rightarrow> process \<Rightarrow> model option \<times> process" where
  "load_model joblib_load s =
     (if model_global s = None then
        (case joblib_load (loads s) of
           Inr m \<Rightarrow> (Some m, s\<lparr>model_global := Some m, loads := Suc (loads s)\<rparr>)
         | Inl e \<Rightarrow> (None, s\<lparr>model_global := None, loads := Suc (loads s)\<rparr>))
      else (model_global s, s))"

subsection \<open>Haversine distance\<close>

definition radians :: "real \<Rightarrow> real" where
  "radians x = x * pi / 180"

definition haversine_distance :: "real \<Rightarrow> real \<Rightarrow> real \<Rightarrow> real \<Rightarrow> real" where
  "haversine_distance lat1_deg lon1_deg lat2_deg lon2_deg =
     (let lat1 = radians lat1_deg; lon1 = radians lon1_deg;
          lat2 = radians lat2_deg; lon2 = radians lon2_deg;
          dlat = lat2 - lat1;
          dlon = lon2 - lon1;
          a = (sin (dlat / 2))\<^sup>2 + cos lat1 * cos lat2 * (sin (dlon / 2))\<^sup>2;
          c = 2 * arcsin (sqrt a);
          r = 6371
      in c * r)"

subsection \<open>Feature builder\<close>

text \<open>
  \<open>datetime.strptime\<close> is the library's parser and a parameter of the model: it returns
  a \<open>datetime\<close> or raises. \<open>weekday\<close> follows the library's proleptic Gregorian ordinal:
  Monday is 0 and Sunday is 6.
\<close>

record datetime =
  year :: int
  month :: int
  day :: int
  hour :: int
  minute :: int
  second :: int

definition is_leap :: "int \<Rightarrow> bool" where
  "is_leap y = (y mod 4 = 0 \<and> (y mod 100 \<noteq> 0 \<or> y mod 400 = 0))"

definition days_before_year :: "int \<Rightarrow> int" where
  "days_before_year y0 = (let y = y0 - 1 in y * 365 + y div 4 - y div 100 + y div 400)"

definition days_before_month :: "int \<Rightarrow> int \<Rightarrow> int" where
  "days_before_month y m =
     ([0, 31, 59, 90, 120, 151, 181, 212, 243, 273, 304, 334] ! nat (m - 1))
       + (if m > 2 \<and> is_leap y then 1 else 0)"

definition toordinal :: "datetime \<Rightarrow> int" where
  "toordinal d = days_before_year (year d) + days_before_month (year d) (month d) + day d"

definition weekday :: "datetime \<Rightarrow> int" where
  "weekday d = (toordinal d + 6) mod 7"

definition prepare_features ::
  "(string \<Rightarrow> string \<Rightarrow> exn + datetime) \<Rightarrow> TripFeatures \<Rightarrow> exn + features" where
  "prepare_features strptime trip =
     (case strptime (pickup_datetime trip) ''%Y-%m-%d %H:%M:%S'' of
        Inl e \<Rightarrow> Inl e
      | Inr pickup_dt \<Rightarrow>
          (let distance_km = haversine_distance
                 (pickup_latitude trip) (pickup_longitude trip)
                 (dropoff_latitude trip) (dropoff_longitude trip);
               hour = hour pickup_dt;
               day_of_week = weekday pickup_dt;
               month = month pickup_dt
           in Inr
             [(''vendor_id'', PInt (vendor_id trip)),
              (''passenger_count'', PInt (passenger_count trip)),
              (''pickup_longitude'', PFloat (pickup_longitude trip)),
              (''pickup_latitude'', PFloat (pickup_latitude trip)),
              (''dropoff_longitude'', PFloat (dropoff_longitude trip)),
              (''dropoff_latitude'', PFloat (dropoff_latitude trip)),
              (''store_and_fwd_flag'', PInt (if store_and_fwd_flag trip = ''Y'' then 1 else 0)),
              (''distance_km'', PFloat distance_km),
              (''hour'', PInt hour),
              (''day_of_week'', PInt day_of_week),
              (''month'', PInt month),
              (''is_weekend'', PInt (if day_of_week \<ge> 5 then 1 else 0)),
              (''is_night'',
                 PInt (if (20 \<le> hour \<and> hour \<le> 23) \<or> (0 \<le> hour \<and> hour < 6) then 1 else 0)),
              (''is_rush_hour'',
                 PInt (if (7 \<le> hour \<and> hour \<le> 10) \<or> (16 \<le> hour \<and> hour \<le> 19) then 1 else 0))]))"

subsection \<open>The prediction handler\<close>

text \<open>
  The \<open>try\<close> block of the handler, once a model is at hand: any exception raised in it
  is answered with status 422, the detail carrying \<open>str(e)\<close> (the parameter \<open>str_exn\<close>).
\<close>

definition predict_with ::
  "(string \<Rightarrow> string \<Rightarrow> exn + datetime) \<Rightarrow> (exn \<Rightarrow> string) \<Rightarrow> model \<Rightarrow> TripFeatures
     \<Rightarrow> exn + TripPrediction" where
  "predict_with strptime str_exn model trip =
     (case bind_exn (prepare_features strptime trip) (\<lambda>features.
           bind_exn (model features) (\<lambda>prediction_seconds.
             Inr \<lparr>trip_duration_seconds = prediction_seconds,
                  trip_duration_minutes = prediction_seconds / 60,
                  confidence = 0.9\<rparr>)) of
        Inr r \<Rightarrow> Inr r
      | Inl e \<Rightarrow> Inl (HTTPException 422 (''Error processing prediction: '' @ str_exn e)))"

definition predict_trip_duration ::
  "(string \<Rightarrow> string \<Rightarrow> exn + datetime) \<Rightarrow> (exn \<Rightarrow> string) \<Rightarrow> (nat \<Rightarrow> exn + model)
     \<Rightarrow> process \<Rightarrow> TripFeatures \<Rightarrow> (exn + TripPrediction) \<times> process" where
  "predict_trip_duration strptime str_exn joblib_load s trip =
     (case load_model joblib_load s of
        (None, s') \<Rightarrow> (Inl (HTTPException 503 ''Prediction model is not available''), s')
      | (Some model, s') \<Rightarrow> (predict_with strptime str_exn model trip, s'))"

text \<open>
  A request: the body is checked against the class first; a body that fails the check
  never reaches the handler.
\<close>

definition predict_request ::
  "(string \<Rightarrow> string \<Rightarrow> exn + datetime) \<Rightarrow> (exn \<Rightarrow> string) \<Rightarrow> (nat \<Rightarrow> exn + model)
     \<Rightarrow> process \<Rightarrow> TripFeatures \<Rightarrow> (exn + TripPrediction) \<times> process" where
  "predict_request strptime str_exn joblib_load s trip =
     (case TripFeatures_validate trip of
        Inl e \<Rightarrow> (Inl e, s)
      | Inr trip' \<Rightarrow> predict_trip_duration strptime str_exn joblib_load s trip')"

text \<open>A process serving a sequence of prediction requests, one after the other.\<close>

fun serve ::
  "(string \<Rightarrow> string \<Rightarrow> exn + datetime) \<Rightarrow> (exn \<Rightarrow> string) \<Rightarrow> (nat \<Rightarrow> exn + model)
     \<Rightarrow> process \<Rightarrow> TripFeatures list \<Rightarrow> (exn + TripPrediction) list \<times> process" where
  "serve strptime str_exn joblib_load s [] = ([], s)"
| "serve strptime str_exn joblib_load s (trip # trips) =
     (case predict_trip_duration strptime str_exn joblib_load s trip of
        (r, s') \<Rightarrow>
          (case serve strptime str_exn joblib_load s' trips of
             (rs, s'') \<Rightarrow> (r # rs, s'')))"

section \<open>backend/app/utils.py\<close>

text \<open>
  The names bound at module level in \<open>utils.py\<close>: its imports, its constants, its
  functions and classes, in the order of the file. A name used in a function body is
  looked up here when the body runs.
\<close>

definition utils_globals :: "string list" where
  "utils_globals =
     [''os'', ''logging'', ''Any'', ''Dict'', ''Optional'', ''datetime'', ''timedelta'',
      ''jwt'', ''CryptContext'', ''HTTPException'', ''status'', ''load_dotenv'',
      ''SECRET_KEY'', ''ALGORITHM'', ''ACCESS_TOKEN_EXPIRE_MINUTES'', ''pwd_context'',
      ''setup_logging'', ''verify_password'', ''get_password_hash'',
      ''create_access_token'', ''decode_token'', ''haversine_distance'',
      ''format_duration'', ''format_distance'', ''AppException'', ''NotFoundException'',
      ''UnauthorizedException'', ''ForbiddenException'', ''validate_coordinates'',
      ''RateLimiter'', ''logger'']"

definition lookup_global :: "string list \<Rightarrow> string \<Rightarrow> exn + unit" where
  "lookup_global globals n = (if n \<in> set globals then Inr () else Inl (NameError n))"

text \<open>
  The copy of the distance function in \<open>utils.py\<close>, run in a module namespace
  \<open>globals\<close>. Its first statement evaluates \<open>math.radians\<close>, so the name \<open>math\<close> is
  looked up before anything is computed.
\<close>

definition haversine_distance_in :: "string list \<Rightarrow> real \<Rightarrow> real \<Rightarrow> real \<Rightarrow> real \<Rightarrow> exn + real" where
  "haversine_distance_in globals lat1_deg lon1_deg lat2_deg lon2_deg =
     bind_exn (lookup_global globals ''math'') (\<lambda>_.
       (let lat1 = radians lat1_deg; lon1 = radians lon1_deg;
            lat2 = radians lat2_deg; lon2 = radians lon2_deg;
            dlat = lat2 - lat1;
            dlon = lon2 - lon1;
            a = (sin (dlat / 2))\<^sup>2 + cos lat1 * cos lat2 * (sin (dlon / 2))\<^sup>2;
            c = 2 * arcsin (sqrt a);
            r = 6371
        in Inr (c * r)))"

definition utils_haversine_distance :: "real \<Rightarrow> real \<Rightarrow> real \<Rightarrow> real \<Rightarrow> exn + real" where
  "utils_haversine_distance = haversine_distance_in utils_globals"

text \<open>
  \<open>validate_coordinates\<close> returns \<open>None\<close> or raises; \<open>fmt\<close> is the formatting of a float
  inside the f-string of the detail.
\<close>

definition validate_coordinates :: "(real \<Rightarrow> string) \<Rightarrow> real \<Rightarrow> real \<Rightarrow> exn + unit" where
  "validate_coordinates fmt lat lng =
     (if \<not> (-90 \<le> lat \<and> lat \<le> 90) then
        Inl (HTTPException 400 (''Latitude must be between -90 and 90, got '' @ fmt lat))
      else if \<not> (-180 \<le> lng \<and> lng \<le> 180) then
        Inl (HTTPException 400 (''Longitude must be between -180 and 180, got '' @ fmt lng))
      else Inr ())"

section \<open>backend/routers/routes.py\<close>

subsection \<open>Python operations on parsed JSON\<close>

text \<open>
  The handler reads the provider's answer with \<open>v[k]\<close>, \<open>v[0]\<close>, \<open>v.get(k, default)\<close>,
  the truth value of \<open>v\<close> and a \<open>for\<close> loop over \<open>v\<close>. Each is written out for every
  kind of value, with the exception Python raises where the operation does not apply.
  The keys of a parsed JSON object are strings, so \<open>0\<close> is never among them.
\<close>

fun truthy :: "json \<Rightarrow> bool" where
  "truthy JNull = False"
| "truthy (JBool b) = b"
| "truthy (JInt i) = (i \<noteq> 0)"
| "truthy (JFloat r) = (r \<noteq> 0)"
| "truthy (JStr s) = (s \<noteq> [])"
| "truthy (JList xs) = (xs \<noteq> [])"
| "truthy (JDict kvs) = (kvs \<noteq> [])"

fun getitem_str :: "json \<Rightarrow> string \<Rightarrow> exn + json" where
  "getitem_str (JDict kvs) k =
     (case map_of kvs k of None \<Rightarrow> Inl (KeyError (JStr k)) | Some v \<Rightarrow> Inr v)"
| "getitem_str v k = Inl TypeError"

fun getitem_0 :: "json \<Rightarrow> exn + json" where
  "getitem_0 (JList []) = Inl IndexError"
| "getitem_0 (JList (x # xs)) = Inr x"
| "getitem_0 (JStr []) = Inl IndexError"
| "getitem_0 (JStr (c # cs)) = Inr (JStr [c])"
| "getitem_0 (JDict kvs) = Inl (KeyError (JInt 0))"
| "getitem_0 v = Inl TypeError"

fun get_method :: "json \<Rightarrow> string \<Rightarrow> json \<Rightarrow> exn + json" where
  "get_method (JDict kvs) k dflt =
     Inr (case map_of kvs k of None \<Rightarrow> dflt | Some v \<Rightarrow> v)"
| "get_method v k dflt = Inl AttributeError"

fun iter_json :: "json \<Rightarrow> exn + json list" where
  "iter_json (JList xs) = Inr xs"
| "iter_json (JStr s) = Inr (map (\<lambda>c. JStr [c]) s)"
| "iter_json (JDict kvs) = Inr (map (\<lambda>kv. JStr (fst kv)) kvs)"
| "iter_json v = Inl TypeError"

text \<open>A \<open>for\<close> loop that appends one result per element and stops at the first exception.\<close>

fun map_exn :: "('a \<Rightarrow> exn + 'b) \<Rightarrow> 'a list \<Rightarrow> exn + 'b list" where
  "map_exn f [] = Inr []"
| "map_exn f (x # xs) =
     (case f x of
        Inl e \<Rightarrow> Inl e
      | Inr y \<Rightarrow> (case map_exn f xs of Inl e \<Rightarrow> Inl e | Inr ys \<Rightarrow> Inr (y # ys)))"

subsection \<open>The response classes\<close>

record Coordinate =
  lng :: real
  lat :: real

record RouteRequest =
  start :: Coordinate
  end_point :: Coordinate
  profile :: string
  alternatives :: bool
  optimize_waypoints :: bool

record RouteLegStep =
  distance :: real
  duration :: real
  instruction :: string
  name :: string
  way_points :: "int list"

record RouteLeg =
  steps :: "RouteLegStep list"
  summary :: "(string \<times> json) list"
  leg_way_points :: "int list"

record Route =
  route_distance :: real
  route_duration :: real
  geometry :: "(string \<times> json) list"
  segments :: "RouteLeg list"

text \<open>
  Constructing one of these classes validates every field. A value that already has the
  type of its field is taken as it is. What the validation library does with any other
  value (convert it or reject it) is a parameter: a record of one function per field type,
  \<open>None\<close> standing for a rejection.
\<close>

record coercions =
  float_of :: "json \<Rightarrow> real option"
  str_of :: "json \<Rightarrow> string option"
  int_of :: "json \<Rightarrow> int option"
  list_of :: "json \<Rightarrow> json list option"
  dict_of :: "json \<Rightarrow> (string \<times> json) list option"

fun float_validator :: "coercions \<Rightarrow> json \<Rightarrow> real option" where
  "float_validator P (JFloat r) = Some r"
| "float_validator P v = float_of P v"

fun str_validator :: "coercions \<Rightarrow> json \<Rightarrow> string option" where
  "str_validator P (JStr s) = Some s"
| "str_validator P v = str_of P v"

fun int_validator :: "coercions \<Rightarrow> json \<Rightarrow> int option" where
  "int_validator P (JInt i) = Some i"
| "int_validator P v = int_of P v"

fun dict_validator :: "coercions \<Rightarrow> json \<Rightarrow> (string \<times> json) list option" where
  "dict_validator P (JDict kvs) = Some kvs"
| "dict_validator P v = dict_of P v"

fun int_list_validator :: "coercions \<Rightarrow> json \<Rightarrow> int list option" where
  "int_list_validator P (JList xs) = those (map (int_validator P) xs)"
| "int_list_validator P v =
     (case list_of P v of None \<Rightarrow> None | Some xs \<Rightarrow> those (map (int_validator P) xs))"

definition new_RouteLegStep ::
  "coercions \<Rightarrow> json \<Rightarrow> json \<Rightarrow> json \<Rightarrow> json \<Rightarrow> json \<Rightarrow> exn + RouteLegStep" where
  "new_RouteLegStep P d du i n w =
     (case (float_validator P d, float_validator P du, str_validator P i,
            str_validator P n, int_list_validator P w) of
        (Some d', Some du', Some i', Some n', Some w') \<Rightarrow>
          Inr \<lparr>distance = d', duration = du', instruction = i', name = n', way_points = w'\<rparr>
      | _ \<Rightarrow> Inl ValidationError)"

definition new_RouteLeg :: "coercions \<Rightarrow> RouteLegStep list \<Rightarrow> json \<Rightarrow> json \<Rightarrow> exn + RouteLeg" where
  "new_RouteLeg P ss sm w =
     (case (dict_validator P sm, int_list_validator P w) of
        (Some sm', Some w') \<Rightarrow> Inr \<lparr>steps = ss, summary = sm', leg_way_points = w'\<rparr>
      | _ \<Rightarrow> Inl ValidationError)"

definition new_Route :: "coercions \<Rightarrow> json \<Rightarrow> json \<Rightarrow> json \<Rightarrow> RouteLeg list \<Rightarrow> exn + Route" where
  "new_Route P d du g segs =
     (case (float_validator P d, float_validator P du, dict_validator P g) of
        (Some d', Some du', Some g') \<Rightarrow>
          Inr \<lparr>route_distance = d', route_duration = du', geometry = g', segments = segs\<rparr>
      | _ \<Rightarrow> Inl ValidationError)"

subsection \<open>The route handler\<close>

text \<open>The body of the inner loop: one provider step becomes one \<open>RouteLegStep\<close>.\<close>

definition make_step :: "coercions \<Rightarrow> json \<Rightarrow> exn + RouteLegStep" where
  "make_step P step =
     bind_exn (getitem_str step ''distance'') (\<lambda>d.
     bind_exn (getitem_str step ''duration'') (\<lambda>du.
     bind_exn (get_method step ''instruction'' (JStr [])) (\<lambda>i.
     bind_exn (get_method step ''name'' (JStr [])) (\<lambda>n.
     bind_exn (get_method step ''way_points'' (JList [])) (\<lambda>w.
       new_RouteLegStep P d du i n w)))))"

text \<open>The body of the outer loop: one provider segment becomes one \<open>RouteLeg\<close>.\<close>

definition make_leg :: "coercions \<Rightarrow> json \<Rightarrow> exn + RouteLeg" where
  "make_leg P leg =
     bind_exn (getitem_str leg ''steps'') (\<lambda>leg_steps.
     bind_exn (iter_json leg_steps) (\<lambda>step_list.
     bind_exn (map_exn (make_step P) step_list) (\<lambda>ss.
     bind_exn (get_method leg ''summary'' (JDict [])) (\<lambda>sm.
     bind_exn (get_method leg ''way_points'' (JList [])) (\<lambda>w.
       new_RouteLeg P ss sm w)))))"

text \<open>
  The statements of the \<open>try\<close> block after the provider has answered. The \<open>else\<close> branch
  raises the 404 inside the \<open>try\<close> block.
\<close>

definition format_response :: "coercions \<Rightarrow> json \<Rightarrow> exn + Route" where
  "format_response P route =
     bind_exn (getitem_str route ''features'') (\<lambda>features.
       if truthy features then
         bind_exn (getitem_0 features) (\<lambda>feature.
         bind_exn (getitem_str feature ''properties'') (\<lambda>properties.
         bind_exn (getitem_str properties ''segments'') (\<lambda>segs.
         bind_exn (iter_json segs) (\<lambda>legs.
         bind_exn (map_exn (make_leg P) legs) (\<lambda>segments.
         bind_exn (getitem_str feature ''properties'') (\<lambda>properties1.
         bind_exn (getitem_str properties1 ''summary'') (\<lambda>summary1.
         bind_exn (getitem_str summary1 ''distance'') (\<lambda>d.
         bind_exn (getitem_str feature ''properties'') (\<lambda>properties2.
         bind_exn (getitem_str properties2 ''summary'') (\<lambda>summary2.
         bind_exn (getitem_str summary2 ''duration'') (\<lambda>du.
         bind_exn (getitem_str feature ''geometry'') (\<lambda>g.
           new_Route P d du g segments))))))))))))
       else Inl (HTTPException 404 ''No route found between the specified points''))"

text \<open>
  The arguments of one call of \<open>client.directions\<close>. The provider is the parameter
  \<open>directions\<close>: it answers with a parsed JSON document or raises. The handler returns its
  result together with the list of the outbound calls it has made.
\<close>

record directions_call =
  coordinates :: "real list list"
  call_profile :: string
  format :: string
  call_alternatives :: bool
  call_optimize_waypoints :: bool

text \<open>
  \<open>ORS_API_KEY\<close> is what \<open>os.getenv\<close> returned: \<open>None\<close> when the variable is not set.
  \<open>not ORS_API_KEY\<close> holds for \<open>None\<close> and for the empty string.
\<close>

definition key_missing :: "string option \<Rightarrow> bool" where
  "key_missing k = (case k of None \<Rightarrow> True | Some s \<Rightarrow> s = [])"

definition get_optimized_route ::
  "string option \<Rightarrow> (directions_call \<Rightarrow> exn + json) \<Rightarrow> coercions \<Rightarrow> (exn \<Rightarrow> string)
     \<Rightarrow> RouteRequest \<Rightarrow> (exn + Route) \<times> directions_call list" where
  "get_optimized_route ORS_API_KEY directions P str_exn route_request =
     (if key_missing ORS_API_KEY then
        (Inl (HTTPException 500 ''OpenRouteService API key not configured''), [])
      else
        (let call = \<lparr>coordinates =
                       [[lng (start route_request), lat (start route_request)],
                        [lng (end_point route_request), lat (end_point route_request)]],
                     call_profile = profile route_request,
                     format = ''geojson'',
                     call_alternatives = alternatives route_request,
                     call_optimize_waypoints = optimize_waypoints route_request\<rparr>
         in (case bind_exn (directions call) (format_response P) of
               Inr r \<Rightarrow> Inr r
             | Inl e \<Rightarrow> Inl (HTTPException 500 (''Error calculating route: '' @ str_exn e)),
             [call])))"

section \<open>Properties\<close>

subsection \<open>Auxiliary facts\<close>

lemma bind_exn_simps [simp]:
  "bind_exn (Inl e) f = Inl e" "bind_exn (Inr x) f = f x"
  by (simp_all add: bind_exn_def)


lemma load_model_loaded:
  "model_global s = Some m \<Longrightarrow> load_model joblib_load s = (Some m, s)"
  by (simp add: load_model_def)

lemma load_model_first:
  "joblib_load 0 = Inr m \<Longrightarrow>
     load_model joblib_load initial_process = (Some m, \<lparr>model_global = Some m, loads = 1\<rparr>)"
  by (simp add: load_model_def initial_process_def)

lemma predict_trip_duration_loaded:
  "model_global s = Some m \<Longrightarrow>
     predict_trip_duration strptime str_exn joblib_load s trip =
       (predict_with strptime str_exn m trip, s)"
  by (simp add: predict_trip_duration_def load_model_loaded)

lemma serve_loaded:
  "model_global s = Some m \<Longrightarrow>
     serve strptime str_exn joblib_load s trips = (map (predict_with strptime str_exn m) trips, s)"
  by (induction trips) (simp_all add: predict_trip_duration_loaded)

lemma predict_with_Inr:
  assumes "predict_with strptime str_exn m trip = Inr r"
  shows "\<exists>fv p. prepare_features strptime trip = Inr fv \<and> m fv = Inr p
           \<and> r = \<lparr>trip_duration_seconds = p, trip_duration_minutes = p / 60, confidence = 0.9\<rparr>"
  using assms
  by (auto simp: predict_with_def bind_exn_def split: sum.splits)

lemma prepare_features_Inr:
  assumes "strptime (pickup_datetime trip) ''%Y-%m-%d %H:%M:%S'' = Inr dt"
  shows "\<exists>fv. prepare_features strptime trip = Inr fv
     \<and> length fv = 14
     \<and> map_of fv ''hour'' = Some (PInt (hour dt))
     \<and> map_of fv ''is_night'' =
          Some (PInt (if (20 \<le> hour dt \<and> hour dt \<le> 23) \<or> (0 \<le> hour dt \<and> hour dt < 6) then 1 else 0))
     \<and> map_of fv ''is_rush_hour'' =
          Some (PInt (if (7 \<le> hour dt \<and> hour dt \<le> 10) \<or> (16 \<le> hour dt \<and> hour dt \<le> 19) then 1 else 0))"
  using assms by (simp add: prepare_features_def Let_def)

lemma haversine_distance_sym_aux:
  "haversine_distance lat1 lon1 lat2 lon2 = haversine_distance lat2 lon2 lat1 lon1"
proof -
  have s: "(sin ((b - a) / 2))\<^sup>2 = (sin ((a - b) / 2))\<^sup>2" for a b :: real
  proof -
    have "(b - a) / 2 = - ((a - b) / 2)" by argo
    then have "sin ((b - a) / 2) = - sin ((a - b) / 2)" by (metis sin_minus)
    then show ?thesis by simp
  qed
  show ?thesis
    unfolding haversine_distance_def Let_def
    by (simp only: s [of "radians lat1" "radians lat2"] s [of "radians lon1" "radians lon2"]
        mult.commute [of "cos (radians lat2)" "cos (radians lat1)"])
qed

lemma haversine_distance_self_aux: "haversine_distance lat1 lon1 lat1 lon1 = 0"
  by (simp add: haversine_distance_def Let_def)

lemma math_not_in_utils_globals: "''math'' \<notin> set utils_globals"
  by (simp add: utils_globals_def)








lemma format_response_empty:
  "format_response P (JDict [(''features'', JList [])]) =
     Inl (HTTPException 404 ''No route found between the specified points'')"
  by (simp add: format_response_def)






subsection \<open>Feature builder\<close>

text \<open>
  C4. Whenever the timestamp of a trip parses, the feature builder returns a feature dict
  whose \<open>hour\<close> is the hour of the parsed timestamp and whose \<open>is_night\<close> is 0 or 1, and
  is 1 exactly when that hour lies in \<open>[20,23]\<close> or in \<open>[0,6)\<close>. Hour 6 gives 0 and hour 5
  gives 1.
\<close>

theorem prepare_features_is_night:
  assumes "strptime (pickup_datetime trip) ''%Y-%m-%d %H:%M:%S'' = Inr dt"
  shows "\<exists>fv b. prepare_features strptime trip = Inr fv
     \<and> map_of fv ''hour'' = Some (PInt (hour dt))
     \<and> map_of fv ''is_night'' = Some (PInt b)
     \<and> (b = 0 \<or> b = 1)
     \<and> (b = 1 \<longleftrightarrow> hour dt \<in> {20..23} \<union> {0..<6})
     \<and> (hour dt = 6 \<longrightarrow> b = 0)
     \<and> (hour dt = 5 \<longrightarrow> b = 1)"
proof -
  from prepare_features_Inr [of strptime trip dt, OF assms] obtain fv where
    fv: "prepare_features strptime trip = Inr fv"
    and h: "map_of fv ''hour'' = Some (PInt (hour dt))"
    and n: "map_of fv ''is_night'' =
          Some (PInt (if (20 \<le> hour dt \<and> hour dt \<le> 23) \<or> (0 \<le> hour dt \<and> hour dt < 6) then 1 else 0))"
    by blast
  let ?b = "if (20 \<le> hour dt \<and> hour dt \<le> 23) \<or> (0 \<le> hour dt \<and> hour dt < 6) then 1 else 0 :: int"
  have "(?b = 0 \<or> ?b = 1) \<and> (?b = 1 \<longleftrightarrow> hour dt \<in> {20..23} \<union> {0..<6})
      \<and> (hour dt = 6 \<longrightarrow> ?b = 0) \<and> (hour dt = 5 \<longrightarrow> ?b = 1)"
    by auto
  with fv h n show ?thesis by blast
qed

theorem prepare_features_is_night_witness:
  "\<exists>fv. prepare_features
       (\<lambda>s f. if s = ''2023-01-01 06:00:00'' \<and> f = ''%Y-%m-%d %H:%M:%S''
               then Inr \<lparr>year = 2023, month = 1, day = 1, hour = 6, minute = 0, second = 0\<rparr>
               else Inl ValueError)
       \<lparr>pickup_longitude = -73.9857, pickup_latitude = 40.7484,
        dropoff_longitude = -73.9881, dropoff_latitude = 40.7517,
        passenger_count = 1, pickup_datetime = ''2023-01-01 06:00:00'',
        vendor_id = 1, store_and_fwd_flag = ''N''\<rparr> = Inr fv
     \<and> map_of fv ''hour'' = Some (PInt 6)
     \<and> map_of fv ''is_night'' = Some (PInt 0)"
  using prepare_features_is_night
    [of "\<lambda>s f. if s = ''2023-01-01 06:00:00'' \<and> f = ''%Y-%m-%d %H:%M:%S''
               then Inr \<lparr>year = 2023, month = 1, day = 1, hour = 6, minute = 0, second = 0\<rparr>
               else Inl ValueError"
        "\<lparr>pickup_longitude = -73.9857, pickup_latitude = 40.7484,
        dropoff_longitude = -73.9881, dropoff_latitude = 40.7517,
        passenger_count = 1, pickup_datetime = ''2023-01-01 06:00:00'',
        vendor_id = 1, store_and_fwd_flag = ''N''\<rparr>"
        "\<lparr>year = 2023, month = 1, day = 1, hour = 6, minute = 0, second = 0\<rparr>"]
  by auto

text \<open>
  C5. Whenever the timestamp of a trip parses, the feature builder returns a feature dict
  whose \<open>is_rush_hour\<close> is 0 or 1, and is 1 exactly when the hour of the parsed timestamp
  lies in \<open>[7,10]\<close> or in \<open>[16,19]\<close>, both ends included. Hours 10 and 19 give 1 and hour
  11 gives 0.
\<close>

theorem prepare_features_is_rush_hour:
  assumes "strptime (pickup_datetime trip) ''%Y-%m-%d %H:%M:%S'' = Inr dt"
  shows "\<exists>fv b. prepare_features strptime trip = Inr fv
     \<and> map_of fv ''hour'' = Some (PInt (hour dt))
     \<and> map_of fv ''is_rush_hour'' = Some (PInt b)
     \<and> (b = 0 \<or> b = 1)
     \<and> (b = 1 \<longleftrightarrow> hour dt \<in> {7..10} \<union> {16..19})
     \<and> (hour dt = 10 \<longrightarrow> b = 1)
     \<and> (hour dt = 19 \<longrightarrow> b = 1)
     \<and> (hour dt = 11 \<longrightarrow> b = 0)"
proof -
  from prepare_features_Inr [of strptime trip dt, OF assms] obtain fv where
    fv: "prepare_features strptime trip = Inr fv"
    and h: "map_of fv ''hour'' = Some (PInt (hour dt))"
    and n: "map_of fv ''is_rush_hour'' =
          Some (PInt (if (7 \<le> hour dt \<and> hour dt \<le> 10) \<or> (16 \<le> hour dt \<and> hour dt \<le> 19) then 1 else 0))"
    by blast
  let ?b = "if (7 \<le> hour dt \<and> hour dt \<le> 10) \<or> (16 \<le> hour dt \<and> hour dt \<le> 19) then 1 else 0 :: int"
  have "(?b = 0 \<or> ?b = 1) \<and> (?b = 1 \<longleftrightarrow> hour dt \<in> {7..10} \<union> {16..19})
      \<and> (hour dt = 10 \<longrightarrow> ?b = 1) \<and> (hour dt = 19 \<longrightarrow> ?b = 1) \<and> (hour dt = 11 \<longrightarrow> ?b = 0)"
    by auto
  with fv h n show ?thesis by blast
qed

theorem prepare_features_is_rush_hour_witness:
  "\<exists>fv. prepare_features
       (\<lambda>s f. if s = ''2023-01-02 19:30:00'' \<and> f = ''%Y-%m-%d %H:%M:%S''
               then Inr \<lparr>year = 2023, month = 1, day = 2, hour = 19, minute = 30, second = 0\<rparr>
               else Inl ValueError)
       \<lparr>pickup_longitude = -73.9857, pickup_latitude = 40.7484,
        dropoff_longitude = -73.9881, dropoff_latitude = 40.7517,
        passenger_count = 2, pickup_datetime = ''2023-01-02 19:30:00'',
        vendor_id = 2, store_and_fwd_flag = ''Y''\<rparr> = Inr fv
     \<and> map_of fv ''hour'' = Some (PInt 19)
     \<and> map_of fv ''is_rush_hour'' = Some (PInt 1)"
  using prepare_features_is_rush_hour
    [of "\<lambda>s f. if s = ''2023-01-02 19:30:00'' \<and> f = ''%Y-%m-%d %H:%M:%S''
               then Inr \<lparr>year = 2023, month = 1, day = 2, hour = 19, minute = 30, second = 0\<rparr>
               else Inl ValueError"
        "\<lparr>pickup_longitude = -73.9857, pickup_latitude = 40.7484,
        dropoff_longitude = -73.9881, dropoff_latitude = 40.7517,
        passenger_count = 2, pickup_datetime = ''2023-01-02 19:30:00'',
        vendor_id = 2, store_and_fwd_flag = ''Y''\<rparr>"
        "\<lparr>year = 2023, month = 1, day = 2, hour = 19, minute = 30, second = 0\<rparr>"]
  by auto

subsection \<open>Prediction handler\<close>

text \<open>
  C6. Whenever the prediction handler returns a prediction, its minutes are its seconds
  divided by 60, and its seconds are what the loaded model answered on the features of
  the trip: the minutes have no other origin.
\<close>

theorem prediction_minutes_from_seconds:
  assumes "predict_trip_duration strptime str_exn joblib_load s trip = (Inr r, s')"
  shows "trip_duration_minutes r = trip_duration_seconds r / 60
     \<and> (\<exists>m fv. model_global s' = Some m \<and> prepare_features strptime trip = Inr fv
            \<and> m fv = Inr (trip_duration_seconds r))"
proof -
  from assms obtain m where m: "load_model joblib_load s = (Some m, s')"
    and r: "predict_with strptime str_exn m trip = Inr r"
    by (auto simp: predict_trip_duration_def split: prod.splits option.splits)
  from m have g: "model_global s' = Some m"
    by (auto simp: load_model_def split: if_splits sum.splits)
  from predict_with_Inr [OF r] g show ?thesis by auto
qed

theorem prediction_minutes_from_seconds_witness:
  "trip_duration_minutes
      \<lparr>trip_duration_seconds = 600, trip_duration_minutes = 10, confidence = 0.9\<rparr>
     = trip_duration_seconds
      \<lparr>trip_duration_seconds = 600, trip_duration_minutes = 10, confidence = 0.9\<rparr> / 60
   \<and> predict_trip_duration
       (\<lambda>s f. if s = ''2023-01-01 12:00:00'' \<and> f = ''%Y-%m-%d %H:%M:%S''
               then Inr \<lparr>year = 2023, month = 1, day = 1, hour = 12, minute = 0, second = 0\<rparr>
               else Inl ValueError)
       (\<lambda>e. ''error'')
       (\<lambda>n. Inr (\<lambda>fv. Inr 600))
       initial_process
       \<lparr>pickup_longitude = -73.9857, pickup_latitude = 40.7484,
        dropoff_longitude = -73.9881, dropoff_latitude = 40.7517,
        passenger_count = 1, pickup_datetime = ''2023-01-01 12:00:00'',
        vendor_id = 1, store_and_fwd_flag = ''N''\<rparr>
     = (Inr \<lparr>trip_duration_seconds = 600, trip_duration_minutes = 10, confidence = 0.9\<rparr>,
        \<lparr>model_global = Some (\<lambda>fv. Inr 600), loads = 1\<rparr>)"
proof -
  have run: "predict_trip_duration
       (\<lambda>s f. if s = ''2023-01-01 12:00:00'' \<and> f = ''%Y-%m-%d %H:%M:%S''
               then Inr \<lparr>year = 2023, month = 1, day = 1, hour = 12, minute = 0, second = 0\<rparr>
               else Inl ValueError)
       (\<lambda>e. ''error'')
       (\<lambda>n. Inr (\<lambda>fv. Inr 600))
       initial_process
       \<lparr>pickup_longitude = -73.9857, pickup_latitude = 40.7484,
        dropoff_longitude = -73.9881, dropoff_latitude = 40.7517,
        passenger_count = 1, pickup_datetime = ''2023-01-01 12:00:00'',
        vendor_id = 1, store_and_fwd_flag = ''N''\<rparr>
     = (Inr \<lparr>trip_duration_seconds = 600, trip_duration_minutes = 10, confidence = 0.9\<rparr>,
        \<lparr>model_global = Some (\<lambda>fv. Inr 600), loads = 1\<rparr>)"
    by (simp add: predict_trip_duration_def load_model_def initial_process_def
        predict_with_def prepare_features_def Let_def)
  from prediction_minutes_from_seconds [OF run] run show ?thesis by simp
qed

text \<open>
  C7, as stated, fails where the load fails. With an artifact that never loads, three
  requests are three answers 503, three calls of \<open>joblib.load\<close> and still no handle. With an
  artifact that loads at the second attempt only, the first use leaves the handle unset
  and it is the second request that loads it.
\<close>

theorem failed_load_is_retried:
  "serve (\<lambda>s f. Inl ValueError) (\<lambda>e. ''bad'')
     (\<lambda>n. Inl (LibraryError ''file not found''))
     initial_process
     [\<lparr>pickup_longitude = -73.9857, pickup_latitude = 40.7484,
       dropoff_longitude = -73.9881, dropoff_latitude = 40.7517,
       passenger_count = 1, pickup_datetime = ''2023-01-01 12:00:00'',
       vendor_id = 1, store_and_fwd_flag = ''N''\<rparr>,
      \<lparr>pickup_longitude = -73.9857, pickup_latitude = 40.7484,
       dropoff_longitude = -73.9881, dropoff_latitude = 40.7517,
       passenger_count = 1, pickup_datetime = ''2023-01-01 12:00:00'',
       vendor_id = 1, store_and_fwd_flag = ''N''\<rparr>,
      \<lparr>pickup_longitude = -73.9857, pickup_latitude = 40.7484,
       dropoff_longitude = -73.9881, dropoff_latitude = 40.7517,
       passenger_count = 1, pickup_datetime = ''2023-01-01 12:00:00'',
       vendor_id = 1, store_and_fwd_flag = ''N''\<rparr>]
   = ([Inl (HTTPException 503 ''Prediction model is not available''),
       Inl (HTTPException 503 ''Prediction model is not available''),
       Inl (HTTPException 503 ''Prediction model is not available'')],
      \<lparr>model_global = None, loads = 3\<rparr>)
   \<and> serve (\<lambda>s f. Inl ValueError) (\<lambda>e. ''bad'')
     (\<lambda>n. if n = 0 then Inl (LibraryError ''file not found'') else Inr (\<lambda>fv. Inr 600))
     initial_process
     [\<lparr>pickup_longitude = -73.9857, pickup_latitude = 40.7484,
       dropoff_longitude = -73.9881, dropoff_latitude = 40.7517,
       passenger_count = 1, pickup_datetime = ''2023-01-01 12:00:00'',
       vendor_id = 1, store_and_fwd_flag = ''N''\<rparr>,
      \<lparr>pickup_longitude = -73.9857, pickup_latitude = 40.7484,
       dropoff_longitude = -73.9881, dropoff_latitude = 40.7517,
       passenger_count = 1, pickup_datetime = ''2023-01-01 12:00:00'',
       vendor_id = 1, store_and_fwd_flag = ''N''\<rparr>]
   = ([Inl (HTTPException 503 ''Prediction model is not available''),
       Inl (HTTPException 422 ''Error processing prediction: bad'')],
      \<lparr>model_global = Some (\<lambda>fv. Inr 600), loads = 2\<rparr>)"
  by (simp add: predict_trip_duration_def load_model_def initial_process_def
      predict_with_def prepare_features_def)

text \<open>
  C7, amended. When the load at the first use succeeds, the model handle is a lazy
  singleton. A fresh process holds no handle and has loaded nothing, and serving no request
  loads nothing. The first use stores the handle; a later \<open>load_model\<close> returns the same
  handle and leaves the process state as it is; and however many requests the process
  serves, all of them are answered with that one handle and \<open>joblib.load\<close> has run exactly
  once. More generally, from any state that holds a handle, \<open>load_model\<close> and any sequence
  of requests use that handle and leave the state, load count included, as it is.
\<close>

theorem model_handle_lazy_singleton:
  assumes "joblib_load 0 = Inr m"
  shows "model_global initial_process = None \<and> loads initial_process = 0
    \<and> serve strptime str_exn joblib_load initial_process [] = ([], initial_process)
    \<and> load_model joblib_load initial_process
         = (Some m, \<lparr>model_global = Some m, loads = 1\<rparr>)
    \<and> load_model joblib_load \<lparr>model_global = Some m, loads = 1\<rparr>
         = (Some m, \<lparr>model_global = Some m, loads = 1\<rparr>)
    \<and> load_model joblib_load \<lparr>model_global = Some m', loads = n\<rparr>
         = (Some m', \<lparr>model_global = Some m', loads = n\<rparr>)
    \<and> serve strptime str_exn joblib_load \<lparr>model_global = Some m', loads = n\<rparr> trips'
         = (map (predict_with strptime str_exn m') trips',
            \<lparr>model_global = Some m', loads = n\<rparr>)
    \<and> serve strptime str_exn joblib_load initial_process (trip # trips)
         = (map (predict_with strptime str_exn m) (trip # trips),
            \<lparr>model_global = Some m, loads = 1\<rparr>)"
proof -
  let ?s1 = "\<lparr>model_global = Some m, loads = 1\<rparr>"
  have first: "load_model joblib_load initial_process = (Some m, ?s1)"
    using assms by (rule load_model_first)
  have again: "load_model joblib_load ?s1 = (Some m, ?s1)"
    by (simp add: load_model_loaded)
  have one: "predict_trip_duration strptime str_exn joblib_load initial_process trip
      = (predict_with strptime str_exn m trip, ?s1)"
    by (simp add: predict_trip_duration_def first)
  have rest: "serve strptime str_exn joblib_load ?s1 trips
      = (map (predict_with strptime str_exn m) trips, ?s1)"
    by (simp add: serve_loaded)
  have all: "serve strptime str_exn joblib_load initial_process (trip # trips)
      = (map (predict_with strptime str_exn m) (trip # trips), ?s1)"
    using rest by (simp add: one)
  have any: "load_model joblib_load \<lparr>model_global = Some m', loads = n\<rparr>
      = (Some m', \<lparr>model_global = Some m', loads = n\<rparr>)"
    by (simp add: load_model_loaded)
  have later: "serve strptime str_exn joblib_load \<lparr>model_global = Some m', loads = n\<rparr> trips'
      = (map (predict_with strptime str_exn m') trips',
         \<lparr>model_global = Some m', loads = n\<rparr>)"
    by (simp add: serve_loaded)
  show ?thesis
    using first again any later all by (simp add: initial_process_def)
qed

theorem model_handle_lazy_singleton_witness:
  "serve
     (\<lambda>s f. if s = ''2023-01-01 12:00:00'' \<and> f = ''%Y-%m-%d %H:%M:%S''
             then Inr \<lparr>year = 2023, month = 1, day = 1, hour = 12, minute = 0, second = 0\<rparr>
             else Inl ValueError)
     (\<lambda>e. ''bad'')
     (\<lambda>n. if n = 0 then Inr (\<lambda>fv. Inr 600) else Inl (LibraryError ''file not found''))
     initial_process
     [\<lparr>pickup_longitude = -73.9857, pickup_latitude = 40.7484,
       dropoff_longitude = -73.9881, dropoff_latitude = 40.7517,
       passenger_count = 1, pickup_datetime = ''2023-01-01 12:00:00'',
       vendor_id = 1, store_and_fwd_flag = ''N''\<rparr>,
      \<lparr>pickup_longitude = -73.9857, pickup_latitude = 40.7484,
       dropoff_longitude = -73.9881, dropoff_latitude = 40.7517,
       passenger_count = 2, pickup_datetime = ''yesterday'',
       vendor_id = 2, store_and_fwd_flag = ''Y''\<rparr>]
   = ([Inr \<lparr>trip_duration_seconds = 600, trip_duration_minutes = 10, confidence = 0.9\<rparr>,
       Inl (HTTPException 422 ''Error processing prediction: bad'')],
      \<lparr>model_global = Some (\<lambda>fv. Inr 600), loads = 1\<rparr>)"
  using model_handle_lazy_singleton
    [where joblib_load = "\<lambda>n. if n = 0 then Inr (\<lambda>fv. Inr 600)
                               else Inl (LibraryError ''file not found'')"
       and m = "\<lambda>fv. Inr 600"
       and strptime = "\<lambda>s f. if s = ''2023-01-01 12:00:00'' \<and> f = ''%Y-%m-%d %H:%M:%S''
             then Inr \<lparr>year = 2023, month = 1, day = 1, hour = 12, minute = 0, second = 0\<rparr>
             else Inl ValueError"
       and str_exn = "\<lambda>e. ''bad''"
       and trip = "\<lparr>pickup_longitude = -73.9857, pickup_latitude = 40.7484,
         dropoff_longitude = -73.9881, dropoff_latitude = 40.7517,
         passenger_count = 1, pickup_datetime = ''2023-01-01 12:00:00'',
         vendor_id = 1, store_and_fwd_flag = ''N''\<rparr>"
       and trips = "[\<lparr>pickup_longitude = -73.9857, pickup_latitude = 40.7484,
         dropoff_longitude = -73.9881, dropoff_latitude = 40.7517,
         passenger_count = 2, pickup_datetime = ''yesterday'',
         vendor_id = 2, store_and_fwd_flag = ''Y''\<rparr>]"]
  by (simp add: predict_with_def prepare_features_def Let_def)

subsection \<open>Haversine distance\<close>

text \<open>
  C9. The distance function of the predictions module, which the feature builder calls, is
  symmetric in its two points, and the distance from a point to itself is 0.
\<close>

theorem haversine_distance_symmetric_and_zero:
  "haversine_distance lat1 lon1 lat2 lon2 = haversine_distance lat2 lon2 lat1 lon1
     \<and> haversine_distance lat1 lon1 lat1 lon1 = 0"
  using haversine_distance_sym_aux [of lat1 lon1 lat2 lon2]
    haversine_distance_self_aux [of lat1 lon1]
  by simp

text \<open>
  C10. The copy of the distance function in the utility module raises on every input: the
  name \<open>math\<close> is not bound in that module, so the call ends in a \<open>NameError\<close> before
  anything is computed. In a namespace that does bind \<open>math\<close> the same body would return
  what the copy in the predictions module returns, which is the only one to compute a
  distance.
\<close>

theorem utils_haversine_distance_raises:
  "utils_haversine_distance lat1 lon1 lat2 lon2 = Inl (NameError ''math'')
     \<and> haversine_distance_in (''math'' # utils_globals) lat1 lon1 lat2 lon2
           = Inr (haversine_distance lat1 lon1 lat2 lon2)"
  using math_not_in_utils_globals
  by (simp add: utils_haversine_distance_def haversine_distance_in_def lookup_global_def
      haversine_distance_def Let_def)

subsection \<open>Request validation\<close>

text \<open>
  C2. The claim is that a request with a coordinate outside the degree ranges is rejected
  as a client error before a prediction is computed. The utility module has the check,
  \<open>validate_coordinates\<close>, but nothing calls it: a request whose pickup latitude is 100 and
  whose dropoff longitude is 200 passes the checks of the class, reaches the model and is
  answered with a prediction, while \<open>validate_coordinates\<close> on that latitude raises
  status 400.
\<close>

theorem out_of_range_coordinates_predicted:
  "predict_request
       (\<lambda>s f. if s = ''2023-01-01 12:00:00'' \<and> f = ''%Y-%m-%d %H:%M:%S''
               then Inr \<lparr>year = 2023, month = 1, day = 1, hour = 12, minute = 0, second = 0\<rparr>
               else Inl ValueError)
       (\<lambda>e. ''error'')
       (\<lambda>n. Inr (\<lambda>fv. Inr 600))
       initial_process
       \<lparr>pickup_longitude = -73.9857, pickup_latitude = 100,
        dropoff_longitude = 200, dropoff_latitude = 40.7517,
        passenger_count = 1, pickup_datetime = ''2023-01-01 12:00:00'',
        vendor_id = 1, store_and_fwd_flag = ''N''\<rparr>
     = (Inr \<lparr>trip_duration_seconds = 600, trip_duration_minutes = 10, confidence = 0.9\<rparr>,
        \<lparr>model_global = Some (\<lambda>fv. Inr 600), loads = 1\<rparr>)
   \<and> validate_coordinates (\<lambda>x. ''100.0'') 100 (-73.9857)
     = Inl (HTTPException 400 ''Latitude must be between -90 and 90, got 100.0'')"
  by (simp add: predict_request_def TripFeatures_validate_def flag_regex_def
      predict_trip_duration_def load_model_def initial_process_def
      predict_with_def prepare_features_def Let_def validate_coordinates_def)

subsection \<open>Route handler\<close>

text \<open>
  C3. When the provider key is absent (\<open>os.getenv\<close> returned \<open>None\<close>, or the empty string),
  the route handler raises status 500 with the detail that the key is not configured, and
  the list of its outbound calls is empty.
\<close>

theorem missing_key_configuration_error:
  assumes "key_missing ORS_API_KEY"
  shows "get_optimized_route ORS_API_KEY directions P str_exn route_request =
       (Inl (HTTPException 500 ''OpenRouteService API key not configured''), [])
     \<and> key_missing None \<and> key_missing (Some [])"
  using assms by (simp add: get_optimized_route_def key_missing_def)

theorem missing_key_configuration_error_witness:
  "get_optimized_route None
      (\<lambda>c. Inr (JDict [(''features'', JList [])]))
      \<lparr>float_of = \<lambda>v. None, str_of = \<lambda>v. None, int_of = \<lambda>v. None,
       list_of = \<lambda>v. None, dict_of = \<lambda>v. None\<rparr>
      (\<lambda>e. ''error'')
      \<lparr>start = \<lparr>lng = -73.9857, lat = 40.7484\<rparr>, end_point = \<lparr>lng = -73.9881, lat = 40.7517\<rparr>,
       profile = ''driving-car'', alternatives = False, optimize_waypoints = False\<rparr>
     = (Inl (HTTPException 500 ''OpenRouteService API key not configured''), [])"
  using missing_key_configuration_error [of None]
  by (simp add: key_missing_def)

text \<open>
  C1. The claim is that an empty feature list is answered with status 404. The handler
  raises the 404 inside its \<open>try\<close> block, where \<open>except Exception\<close> catches it: with a key
  configured and a provider that answers \<open>{"features": []}\<close> the handler raises status 500,
  whose detail wraps the text of the 404. No input at all makes the handler raise 404.
\<close>

theorem empty_features_answered_500:
  "fst (get_optimized_route (Some ''key'') (\<lambda>c. Inr (JDict [(''features'', JList [])]))
          P str_exn route_request)
     = Inl (HTTPException 500
         (''Error calculating route: '' @
            str_exn (HTTPException 404 ''No route found between the specified points'')))
   \<and> fst (get_optimized_route ORS_API_KEY directions P str_exn route_request)
       \<noteq> Inl (HTTPException 404 detail)"
proof -
  have a: "fst (get_optimized_route (Some ''key'') (\<lambda>c. Inr (JDict [(''features'', JList [])]))
          P str_exn route_request)
     = Inl (HTTPException 500
         (''Error calculating route: '' @
            str_exn (HTTPException 404 ''No route found between the specified points'')))"
    by (simp add: get_optimized_route_def key_missing_def Let_def format_response_empty)
  have b: "fst (get_optimized_route ORS_API_KEY directions P str_exn route_request)
       \<noteq> Inl (HTTPException 404 detail)"
    by (simp add: get_optimized_route_def Let_def split: sum.splits)
  from a b show ?thesis by simp
qed



end
